theory Spec2Isabelle
  imports Main "HOL-Library.Word"
begin

section \<open>Python values\<close>

text \<open>
  The relay probes loosely typed objects (\<^verbatim>\<open>getattr(x, "f", None)\<close>, \<^verbatim>\<open>isinstance\<close>,
  truthiness), so the attributes it inspects are values of a small universe of Python
  values. A missing attribute and an attribute that is \<^verbatim>\<open>None\<close> are the same value
  \<open>PNone\<close>, as \<^verbatim>\<open>getattr\<close> with default \<^verbatim>\<open>None\<close> makes them. A \<open>string\<close> is a Python
  \<^verbatim>\<open>str\<close> whose characters have code points below 256; \<open>bytes\<close> is a Python
  \<^verbatim>\<open>bytes\<close> or \<^verbatim>\<open>bytearray\<close>.
\<close>

type_synonym byte = "8 word"
type_synonym bytes = "byte list"

datatype pyval =
    PNone
  | PBool bool
  | PInt int
  | PStr string
  | PBytes bytes
  | PList "pyval list"
  | PDict "(string \<times> pyval) list"

fun truthy :: "pyval \<Rightarrow> bool" where
  "truthy PNone = False"
| "truthy (PBool b) = b"
| "truthy (PInt i) = (i \<noteq> 0)"
| "truthy (PStr s) = (s \<noteq> [])"
| "truthy (PBytes b) = (b \<noteq> [])"
| "truthy (PList xs) = (xs \<noteq> [])"
| "truthy (PDict kvs) = (kvs \<noteq> [])"

fun is_str :: "pyval \<Rightarrow> bool" where
  "is_str (PStr s) = True"
| "is_str v = False"

fun is_dict :: "pyval \<Rightarrow> bool" where
  "is_dict (PDict kvs) = True"
| "is_dict v = False"

text \<open>\<^verbatim>\<open>x or d\<close>\<close>

definition py_or :: "pyval \<Rightarrow> pyval \<Rightarrow> pyval" where
  "py_or x d = (if truthy x then x else d)"

text \<open>
  \<^verbatim>\<open>str.strip()\<close> removes leading and trailing whitespace; below code point 256 the
  whitespace characters of Python are 9 to 13, 28 to 32, 133 and 160.
\<close>

definition py_isspace :: "char \<Rightarrow> bool" where
  "py_isspace c =
     (let n = (of_char c :: nat)
      in (9 \<le> n \<and> n \<le> 13) \<or> (28 \<le> n \<and> n \<le> 32) \<or> n = 133 \<or> n = 160)"

definition strip :: "string \<Rightarrow> string" where
  "strip s = rev (dropWhile py_isspace (rev (dropWhile py_isspace s)))"

section \<open>Base64 (\<^verbatim>\<open>b64e\<close>, \<^verbatim>\<open>b64d\<close>)\<close>

text \<open>
  \<^verbatim>\<open>b64e(b) = base64.b64encode(b).decode("ascii")\<close> and
  \<^verbatim>\<open>b64d(s) = base64.b64decode(s.encode("ascii"))\<close>, in both source files. The two
  library functions are the standard Base64 of RFC 4648: the encoder maps each group of
  three bytes to four characters of the alphabet \<^verbatim>\<open>A-Z a-z 0-9 + /\<close> and pads a last
  group of one or two bytes with \<^verbatim>\<open>=\<close>; the decoder, called without validation, skips
  every character outside the alphabet, stops at a complete padding, and raises on a
  truncated last group.
\<close>

datatype error =
    UnicodeEncodeError
  | BinasciiError
  | JSONDecodeError
  | RecursionError
  | ValueError
  | Unsupported
  | RuntimeError string
  | Exception string

definition b64_char :: "nat \<Rightarrow> char" where
  "b64_char n =
     (if n < 26 then char_of (65 + n)
      else if n < 52 then char_of (97 + (n - 26))
      else if n < 62 then char_of (48 + (n - 52))
      else if n = 62 then CHR ''+'' else CHR ''/'')"

fun b64encode :: "bytes \<Rightarrow> string" where
  "b64encode [] = []"
| "b64encode [a] =
     (let x = unat a
      in [b64_char (x div 4), b64_char ((x mod 4) * 16), CHR ''='', CHR ''=''])"
| "b64encode [a, b] =
     (let x = unat a; y = unat b
      in [b64_char (x div 4), b64_char ((x mod 4) * 16 + y div 16),
          b64_char ((y mod 16) * 4), CHR ''=''])"
| "b64encode (a # b # c # rest) =
     (let x = unat a; y = unat b; z = unat c
      in [b64_char (x div 4), b64_char ((x mod 4) * 16 + y div 16),
          b64_char ((y mod 16) * 4 + z div 64), b64_char (z mod 64)]
         @ b64encode rest)"

definition b64e :: "bytes \<Rightarrow> string" where
  "b64e b = b64encode b"

text \<open>The decoding table: the value of an alphabet character, \<open>None\<close> for any other.\<close>

definition b64_index :: "char \<Rightarrow> nat option" where
  "b64_index c =
     (let n = (of_char c :: nat)
      in if 65 \<le> n \<and> n \<le> 90 then Some (n - 65)
         else if 97 \<le> n \<and> n \<le> 122 then Some (n - 97 + 26)
         else if 48 \<le> n \<and> n \<le> 57 then Some (n - 48 + 52)
         else if c = CHR ''+'' then Some 62
         else if c = CHR ''/'' then Some 63
         else None)"

text \<open>
  The decoder's loop over the input, with the position in the current group of four
  (\<open>quad_pos\<close>), the bits left over from the previous character (\<open>leftchar\<close>) and the
  number of padding characters seen since the last alphabet character (\<open>pads\<close>).
\<close>

fun a2b_base64 :: "nat \<Rightarrow> nat \<Rightarrow> nat \<Rightarrow> string \<Rightarrow> error + bytes" where
  "a2b_base64 quad_pos leftchar pads [] =
     (if quad_pos \<noteq> 0 then Inl BinasciiError else Inr [])"
| "a2b_base64 quad_pos leftchar pads (c # cs) =
     (if c = CHR ''='' then
        (if quad_pos \<ge> 2 \<and> quad_pos + (pads + 1) \<ge> 4 then Inr []
         else a2b_base64 quad_pos leftchar (if quad_pos \<ge> 2 then pads + 1 else pads) cs)
      else
        (case b64_index c of
           None \<Rightarrow> a2b_base64 quad_pos leftchar pads cs
         | Some v \<Rightarrow>
             (if quad_pos = 0 then a2b_base64 1 v 0 cs
              else if quad_pos = 1 then
                map_sum id ((#) (of_nat (leftchar * 4 + v div 16)))
                  (a2b_base64 2 (v mod 16) 0 cs)
              else if quad_pos = 2 then
                map_sum id ((#) (of_nat (leftchar * 16 + v div 4)))
                  (a2b_base64 3 (v mod 4) 0 cs)
              else
                map_sum id ((#) (of_nat (leftchar * 64 + v)))
                  (a2b_base64 0 0 0 cs))))"

definition b64d :: "string \<Rightarrow> error + bytes" where
  "b64d s =
     (if \<exists>c \<in> set s. (of_char c :: nat) \<ge> 128 then Inl UnicodeEncodeError
      else a2b_base64 0 0 0 s)"

section \<open>Events, the Outbound Queue and the log of effects\<close>

text \<open>
  The messages the server builds are dictionary literals with a \<^verbatim>\<open>type\<close> key; one
  constructor stands for each literal of the source:
  \<^verbatim>\<open>{"type": "audio", "data": d, "mime_type": m}\<close>, \<^verbatim>\<open>{"type": "text", "text": t}\<close>,
  \<^verbatim>\<open>{"type": "interrupted"}\<close>, \<^verbatim>\<open>{"type": "error", "message": m}\<close>,
  \<^verbatim>\<open>{"type": "ready", "model": m}\<close> and \<^verbatim>\<open>{"type": "pong"}\<close>.
\<close>

datatype event =
    Audio string string
  | Text string
  | Interrupted
  | Error string
  | Ready string
  | Pong

text \<open>An entry of the upstream reply batch: \<^verbatim>\<open>{"id": i, "name": n, "response": r}\<close>.\<close>

record reply =
  reply_id :: pyval
  reply_name :: pyval
  reply_response :: pyval

text \<open>
  Everything the loops do to the outside is logged in order: a call of the Tool Gateway
  (\<^verbatim>\<open>mcp_call_tool\<close>), a \<^verbatim>\<open>put\<close> on the Outbound Queue, the sends to the upstream session
  and the sends on the client's socket.
\<close>

datatype action =
    GatewayCall pyval pyval
  | QueuePut event
  | SendToolResponse "reply list"
  | SendAudio bytes pyval
  | SendText string
  | SendActivityEnd
  | WsSend event

record state =
  out_q :: "event list"
  trace :: "action list"

definition log :: "action \<Rightarrow> state \<Rightarrow> state" where
  "log a st = st\<lparr>trace := trace st @ [a]\<rparr>"

text \<open>\<^verbatim>\<open>await out_q.put(e)\<close>: the queue is unbounded, the put never blocks or fails.\<close>

definition put :: "event \<Rightarrow> state \<Rightarrow> state" where
  "put e st = st\<lparr>out_q := out_q st @ [e], trace := trace st @ [QueuePut e]\<rparr>"

text \<open>
  \<^verbatim>\<open>while not out_q.empty(): out_q.get_nowait()\<close>: one element leaves the head of the
  queue per iteration (\<^verbatim>\<open>get_nowait\<close> does not raise on a queue that is not empty).
\<close>

fun drain :: "event list \<Rightarrow> event list" where
  "drain [] = []"
| "drain (e # q) = drain q"

definition flush :: "state \<Rightarrow> state" where
  "flush st = st\<lparr>out_q := drain (out_q st)\<rparr>"

section \<open>Upstream response units\<close>

record blob =
  blob_data :: pyval
  blob_mime_type :: pyval

record part =
  part_inline_data :: "blob option"
  part_text :: pyval

record model_turn =
  mt_parts :: "part list option"

record server_content =
  sc_model_turn :: "model_turn option"
  sc_interrupted :: pyval

record function_call =
  fc_name :: pyval
  fc_id :: pyval
  fc_args :: pyval

record tool_call =
  tc_function_calls :: "function_call list option"

record response =
  resp_server_content :: "server_content option"
  resp_tool_call :: "tool_call option"

section \<open>The Tool Gateway and response normalization\<close>

text \<open>
  What \<^verbatim>\<open>session.call_tool\<close> returns: \<^verbatim>\<open>structuredContent\<close> (\<open>PNone\<close> when absent), the
  \<^verbatim>\<open>content\<close> list (\<open>None\<close> when absent) whose items carry a \<^verbatim>\<open>text\<close> attribute or not, and
  the rendering \<^verbatim>\<open>str(result)\<close> of the object.
\<close>

record content_item =
  item_text :: pyval

record mcp_result =
  structuredContent :: pyval
  content :: "content_item list option"
  result_str :: string

text \<open>
  The collaborators the loops call, as parameters. Each sees the log so far, so that a
  backend with state is covered: the backend behind \<^verbatim>\<open>mcp_call_tool\<close> (a result, or the
  exception it raises), \<^verbatim>\<open>json.loads\<close> on a tool's text (the value it returns, or the
  exception it raises: \<^verbatim>\<open>JSONDecodeError\<close> for a text that is not JSON, and others such as
  \<^verbatim>\<open>RecursionError\<close> for a text nested too deeply or \<^verbatim>\<open>ValueError\<close> for a number too long),
  the builtin \<^verbatim>\<open>str\<close> on a value and on an exception, as the f-strings and \<^verbatim>\<open>str(e)\<close> use
  it, and for each send (\<^verbatim>\<open>send_tool_response\<close>, \<^verbatim>\<open>send_realtime_input\<close>, the socket's
  \<^verbatim>\<open>send_text\<close>) the exception it raises, if any.
\<close>

record env =
  mcp_call_tool :: "action list \<Rightarrow> pyval \<Rightarrow> pyval \<Rightarrow> error + mcp_result"
  json_loads :: "string \<Rightarrow> error + pyval"
  py_str :: "pyval \<Rightarrow> string"
  exc_str :: "error \<Rightarrow> string"
  send_tool_response :: "action list \<Rightarrow> reply list \<Rightarrow> error option"
  send_realtime_input :: "action list \<Rightarrow> action \<Rightarrow> error option"
  ws_send_text :: "action list \<Rightarrow> event \<Rightarrow> error option"

text \<open>
  \<^verbatim>\<open>mcp_result_to_payload\<close>. Its \<^verbatim>\<open>except\<close> clause names \<^verbatim>\<open>json.JSONDecodeError\<close> alone, so any
  other exception of \<^verbatim>\<open>json.loads\<close> leaves the function.
\<close>

definition mcp_result_to_payload :: "env \<Rightarrow> mcp_result \<Rightarrow> error + pyval" where
  "mcp_result_to_payload env result =
     (let structured = structuredContent result;
          fallback = PDict [(''error'', PStr ''empty_tool_response''),
                            (''raw'', PStr (result_str result))]
      in if structured \<noteq> PNone then Inr structured
         else
           (case (case content result of None \<Rightarrow> [] | Some items \<Rightarrow> items) of
              [] \<Rightarrow> Inr fallback
            | first # others \<Rightarrow>
                (case item_text first of
                   PStr txt \<Rightarrow>
                     (case json_loads env txt of
                        Inr parsed \<Rightarrow> Inr parsed
                      | Inl e \<Rightarrow>
                          (if e = JSONDecodeError then Inr (PDict [(''text'', PStr txt)])
                           else Inl e))
                 | other \<Rightarrow> Inr fallback)))"

section \<open>The upstream receive loops\<close>

text \<open>
  The loop over the parts of a model turn, the same in \<^verbatim>\<open>gemini_recv_loop\<close> (main.py) and
  in \<^verbatim>\<open>GeminiLiveBridge.recv_loop\<close> (gemini_live.py).
\<close>

definition emit_part :: "part \<Rightarrow> state \<Rightarrow> state" where
  "emit_part p st =
     (let st1 = (case part_inline_data p of
                   None \<Rightarrow> st
                 | Some inline \<Rightarrow>
                     (case blob_data inline of
                        PBytes b \<Rightarrow> put (Audio (b64e b) ''audio/pcm;rate=24000'') st
                      | other \<Rightarrow> st))
      in case part_text p of
           PStr t \<Rightarrow> if strip t \<noteq> [] then put (Text t) st1 else st1
         | other \<Rightarrow> st1)"

fun emit_parts :: "part list \<Rightarrow> state \<Rightarrow> state" where
  "emit_parts [] st = st"
| "emit_parts (p # ps) st = emit_parts ps (emit_part p st)"

definition emit_model_turn :: "server_content option \<Rightarrow> state \<Rightarrow> state" where
  "emit_model_turn sc st =
     (case sc of
        None \<Rightarrow> st
      | Some c \<Rightarrow>
          (case sc_model_turn c of
             None \<Rightarrow> st
           | Some mt \<Rightarrow> emit_parts (case mt_parts mt of None \<Rightarrow> [] | Some ps \<Rightarrow> ps) st))"

definition interrupted :: "server_content option \<Rightarrow> bool" where
  "interrupted sc = (case sc of None \<Rightarrow> False | Some c \<Rightarrow> truthy (sc_interrupted c))"

subsection \<open>Tool dispatch (main.py)\<close>

text \<open>
  One iteration of \<^verbatim>\<open>for fc in function_calls\<close>, on the state and the reply batch. The
  \<^verbatim>\<open>try\<close> holds the call of the gateway and the normalization of its result: an
  exception of either gives the request's error entry.
\<close>

definition dispatch_one ::
  "env \<Rightarrow> function_call \<Rightarrow> state \<times> reply list \<Rightarrow> state \<times> reply list" where
  "dispatch_one env fc acc =
     (let st = fst acc; function_responses = snd acc;
          fn_name = fc_name fc; fn_id = fc_id fc;
          fn_args = py_or (fc_args fc) (PDict [])
      in if \<not> is_str fn_id \<or> \<not> truthy fn_id then
           (put (Error (''Tool call missing id: '' @ py_str env fn_name)) st,
            function_responses)
         else if \<not> is_str fn_name \<or> \<not> truthy fn_name then
           (st,
            function_responses @
              [\<lparr>reply_id = fn_id,
                reply_name = py_or fn_name (PStr ''unknown_tool''),
                reply_response = PDict [(''error'', PStr ''missing_function_name'')]\<rparr>])
         else
           (let fn_args = (if \<not> is_dict fn_args then PDict [] else fn_args);
                st1 = log (GatewayCall fn_name fn_args) st;
                attempt =
                  (case mcp_call_tool env (trace st) fn_name fn_args of
                     Inl e \<Rightarrow> Inl e
                   | Inr mcp_result \<Rightarrow> mcp_result_to_payload env mcp_result)
            in case attempt of
                 Inr payload \<Rightarrow>
                   (st1,
                    function_responses @
                      [\<lparr>reply_id = fn_id, reply_name = fn_name,
                        reply_response = PDict [(''output'', payload)]\<rparr>])
               | Inl e \<Rightarrow>
                   (st1,
                    function_responses @
                      [\<lparr>reply_id = fn_id, reply_name = fn_name,
                        reply_response = PDict [(''error'', PStr (exc_str env e))]\<rparr>])))"

fun dispatch_all ::
  "env \<Rightarrow> function_call list \<Rightarrow> state \<times> reply list \<Rightarrow> state \<times> reply list" where
  "dispatch_all env [] acc = acc"
| "dispatch_all env (fc # fcs) acc = dispatch_all env fcs (dispatch_one env fc acc)"

text \<open>
  The tool-call branch of the loop body: the batch is dispatched from an empty reply
  list, and the replies are sent upstream if there are any. The first component is the
  exception that leaves the branch, if any.
\<close>

definition handle_tool_call :: "env \<Rightarrow> tool_call option \<Rightarrow> state \<Rightarrow> error option \<times> state" where
  "handle_tool_call env tc st =
     (case tc of
        None \<Rightarrow> (None, st)
      | Some t \<Rightarrow>
          (case tc_function_calls t of
             None \<Rightarrow> (None, st)
           | Some [] \<Rightarrow> (None, st)
           | Some function_calls \<Rightarrow>
               (let r = dispatch_all env function_calls (st, []);
                    st1 = fst r; function_responses = snd r
                in if function_responses \<noteq> [] then
                     (send_tool_response env (trace st1) function_responses,
                      log (SendToolResponse function_responses) st1)
                   else (None, st1))))"

subsection \<open>\<^verbatim>\<open>gemini_recv_loop\<close> (main.py)\<close>

definition process_response :: "env \<Rightarrow> response \<Rightarrow> state \<Rightarrow> error option \<times> state" where
  "process_response env r st =
     (let sc = resp_server_content r
      in case handle_tool_call env (resp_tool_call r) st of
           (Some e, st1) \<Rightarrow> (Some e, st1)
         | (None, st1) \<Rightarrow>
             (let st2 = emit_model_turn sc st1
              in (None, if interrupted sc then put Interrupted (flush st2) else st2)))"

text \<open>
  The loop runs over the units the upstream stream yields; an item \<open>Inl e\<close> is the
  stream raising \<open>e\<close>. Any exception ends the loop after one terminal error Event; on a
  stream that has yielded nothing more the loop is still waiting.
\<close>

datatype status = Waiting | Returned

fun gemini_recv_loop :: "env \<Rightarrow> (error + response) list \<Rightarrow> state \<Rightarrow> status \<times> state" where
  "gemini_recv_loop env [] st = (Waiting, st)"
| "gemini_recv_loop env (Inl e # units) st =
     (Returned, put (Error (''Gemini receive error: '' @ exc_str env e)) st)"
| "gemini_recv_loop env (Inr r # units) st =
     (case process_response env r st of
        (Some e, st1) \<Rightarrow>
          (Returned, put (Error (''Gemini receive error: '' @ exc_str env e)) st1)
      | (None, st1) \<Rightarrow> gemini_recv_loop env units st1)"

subsection \<open>\<^verbatim>\<open>GeminiLiveBridge.recv_loop\<close> (gemini_live.py)\<close>

definition bridge_process_response :: "response \<Rightarrow> state \<Rightarrow> state" where
  "bridge_process_response r st =
     (let sc = resp_server_content r;
          st1 = emit_model_turn sc st
      in if interrupted sc then flush st1 else st1)"

text \<open>
  The method raises when no session was started; it has no handler, so an exception of
  the stream leaves it.
\<close>

fun bridge_loop :: "(error + response) list \<Rightarrow> state \<Rightarrow> error option \<times> state" where
  "bridge_loop [] st = (None, st)"
| "bridge_loop (Inl e # units) st = (Some e, st)"
| "bridge_loop (Inr r # units) st = bridge_loop units (bridge_process_response r st)"

definition recv_loop :: "bool \<Rightarrow> (error + response) list \<Rightarrow> state \<Rightarrow> error option \<times> state" where
  "recv_loop session_started units st =
     (if \<not> session_started then (Some (RuntimeError ''Session not started''), st)
      else bridge_loop units st)"

subsection \<open>The delivery loop \<^verbatim>\<open>gemini_to_client\<close>\<close>

text \<open>
  \<^verbatim>\<open>evt = await out_q.get(); await send_json(ws, evt)\<close>, repeated: the Events leave the
  queue from its head and reach the socket in that order, until a send raises or the
  queue is empty (where the loop waits).
\<close>

function gemini_to_client :: "env \<Rightarrow> state \<Rightarrow> error option \<times> state" where
  "gemini_to_client env st =
     (case out_q st of
        [] \<Rightarrow> (None, st)
      | evt # q \<Rightarrow>
          (let st1 = st\<lparr>out_q := q, trace := trace st @ [WsSend evt]\<rparr>
           in case ws_send_text env (trace st) evt of
                Some e \<Rightarrow> (Some e, st1)
              | None \<Rightarrow> gemini_to_client env st1))"
  by pat_completeness auto
termination
  by (relation "measure (\<lambda>(env, st). length (out_q st))") auto

section \<open>The client-to-upstream loop (main.py)\<close>

text \<open>\<^verbatim>\<open>d.get(k, default)\<close> on a dictionary (an association list with distinct keys).\<close>

definition dict_get :: "(string \<times> pyval) list \<Rightarrow> string \<Rightarrow> pyval \<Rightarrow> pyval" where
  "dict_get d k dflt = (case map_of d k of None \<Rightarrow> dflt | Some v \<Rightarrow> v)"

text \<open>
  \<^verbatim>\<open>handle_client_msg\<close> on what \<^verbatim>\<open>recv_json\<close> returned. A value that is not a dictionary
  has no \<^verbatim>\<open>get\<close>; an exception of \<^verbatim>\<open>b64d\<close> or of a send leaves the function, except in the
  \<^verbatim>\<open>interrupt\<close> branch, which swallows it.
\<close>

definition handle_client_msg :: "env \<Rightarrow> pyval \<Rightarrow> state \<Rightarrow> error option \<times> state" where
  "handle_client_msg env m st =
     (case m of
        PDict msg \<Rightarrow>
          (let t = dict_get msg ''type'' PNone
           in if t = PStr ''audio'' then
                (let data_b64 = dict_get msg ''data'' PNone;
                     mime_type = dict_get msg ''mime_type'' (PStr ''audio/pcm;rate=16000'')
                 in case data_b64 of
                      PStr s \<Rightarrow>
                        (case b64d s of
                           Inl e \<Rightarrow> (Some e, st)
                         | Inr decoded \<Rightarrow>
                             (send_realtime_input env (trace st) (SendAudio decoded mime_type),
                              log (SendAudio decoded mime_type) st))
                    | other \<Rightarrow> (None, st))
              else if t = PStr ''text'' then
                (case dict_get msg ''text'' (PStr []) of
                   PStr txt \<Rightarrow>
                     (if txt \<noteq> [] then
                        (send_realtime_input env (trace st) (SendText txt),
                         log (SendText txt) st)
                      else (None, st))
                 | other \<Rightarrow> (None, st))
              else if t = PStr ''interrupt'' then (None, log SendActivityEnd st)
              else if t = PStr ''ping'' then
                (ws_send_text env (trace st) Pong, log (WsSend Pong) st)
              else if t = PStr ''config'' then (None, st)
              else
                (let evt = Error (''Unknown message type: '' @ py_str env t)
                 in (ws_send_text env (trace st) evt, log (WsSend evt) st)))
      | other \<Rightarrow> (Some (Exception ''AttributeError''), st))"

text \<open>
  What \<^verbatim>\<open>recv_json\<close> does on each turn of \<^verbatim>\<open>client_to_gemini\<close>: the socket is closed
  (\<^verbatim>\<open>WebSocketDisconnect\<close>), the text is not JSON or the receive fails otherwise, or a
  value arrives.
\<close>

datatype inbound = Disconnect | Invalid error | Message pyval

fun client_loop :: "env \<Rightarrow> inbound list \<Rightarrow> state \<Rightarrow> status \<times> state" where
  "client_loop env [] st = (Waiting, st)"
| "client_loop env (Disconnect # ins) st = (Returned, st)"
| "client_loop env (Invalid e # ins) st =
     (Returned, log (WsSend (Error (''Invalid message: '' @ exc_str env e))) st)"
| "client_loop env (Message m # ins) st =
     (case handle_client_msg env m st of
        (Some e, st1) \<Rightarrow>
          (Returned, log (WsSend (Error (''Gemini send error: '' @ exc_str env e))) st1)
      | (None, st1) \<Rightarrow> client_loop env ins st1)"

definition client_to_gemini ::
  "env \<Rightarrow> pyval option \<Rightarrow> inbound list \<Rightarrow> state \<Rightarrow> status \<times> state" where
  "client_to_gemini env initial_msg ins st =
     (case initial_msg of
        None \<Rightarrow> client_loop env ins st
      | Some m \<Rightarrow> client_loop env (Message m # ins) st)"

section \<open>Establishing the upstream session (\<^verbatim>\<open>ws_handler\<close>)\<close>

text \<open>
  The configuration is a dictionary from option names to values of any kind (the tools
  are objects of the tool backend). \<^verbatim>\<open>client.aio.live.connect(...).__aenter__()\<close> is a
  parameter: given the attempts made so far, the model name and a configuration, it
  returns a session or raises.
\<close>

type_synonym 'v config = "(string \<times> 'v) list"

definition minimal_cfg :: "'v config \<Rightarrow> 'v config" where
  "minimal_cfg cfg =
     filter (\<lambda>(k, v). k \<in> {''response_modalities'', ''system_instruction'', ''tools''}) cfg"

definition establish_upstream ::
  "((string \<times> 'v config) list \<Rightarrow> string \<Rightarrow> 'v config \<Rightarrow> error + 's) \<Rightarrow> string \<Rightarrow> 'v config
   \<Rightarrow> (string \<times> 'v config) list \<times> (error + 's)" where
  "establish_upstream connect model cfg =
     (case connect [] model cfg of
        Inr live_session \<Rightarrow> ([(model, cfg)], Inr live_session)
      | Inl e \<Rightarrow>
          ([(model, cfg), (model, minimal_cfg cfg)],
           connect [(model, cfg)] model (minimal_cfg cfg)))"

text \<open>
  From the connect to the start of the relay: with a session the handler sends
  \<^verbatim>\<open>{"type": "ready", "model": model}\<close> and starts the three loops on it; an exception of
  the second connect reaches the handler's last \<^verbatim>\<open>except\<close>, which reports it to the client.
\<close>

datatype 's lifecycle = Active 's | Closed

definition start_session ::
  "(error \<Rightarrow> string) \<Rightarrow> ((string \<times> 'v config) list \<Rightarrow> string \<Rightarrow> 'v config \<Rightarrow> error + 's)
   \<Rightarrow> string \<Rightarrow> 'v config \<Rightarrow> (string \<times> 'v config) list \<times> event list \<times> 's lifecycle" where
  "start_session str_of connect model cfg =
     (case establish_upstream connect model cfg of
        (attempts, Inr live_session) \<Rightarrow> (attempts, [Ready model], Active live_session)
      | (attempts, Inl e) \<Rightarrow> (attempts, [Error (str_of e)], Closed))"

section \<open>The wire encoding of Events (\<^verbatim>\<open>send_json\<close>, \<^verbatim>\<open>recv_json\<close>)\<close>



























section \<open>Vocabulary for the tool-dispatch properties\<close>

text \<open>
  The two guards of the dispatch loop, positively: the identifier, or the name, is a
  string that is not empty.
\<close>

definition has_id :: "function_call \<Rightarrow> bool" where
  "has_id fc = (is_str (fc_id fc) \<and> truthy (fc_id fc))"

definition has_name :: "function_call \<Rightarrow> bool" where
  "has_name fc = (is_str (fc_name fc) \<and> truthy (fc_name fc))"

text \<open>The arguments the gateway is called with: the request's, when they are a dictionary.\<close>

definition call_args :: "function_call \<Rightarrow> pyval" where
  "call_args fc = (if is_dict (fc_args fc) then fc_args fc else PDict [])"

fun is_gateway_call :: "action \<Rightarrow> bool" where
  "is_gateway_call (GatewayCall n a) = True"
| "is_gateway_call a = False"

fun is_tool_response :: "action \<Rightarrow> bool" where
  "is_tool_response (SendToolResponse rs) = True"
| "is_tool_response a = False"

text \<open>What one request of a batch adds to the log.\<close>

definition request_actions :: "env \<Rightarrow> function_call \<Rightarrow> action list" where
  "request_actions env fc =
     (if \<not> has_id fc then
        [QueuePut (Error (''Tool call missing id: '' @ py_str env (fc_name fc)))]
      else if \<not> has_name fc then []
      else [GatewayCall (fc_name fc) (call_args fc)])"

text \<open>
  The text attribute of the first content item, when there is one: what
  \<^verbatim>\<open>mcp_result_to_payload\<close> reads of the content.
\<close>

definition first_item_text :: "mcp_result \<Rightarrow> pyval option" where
  "first_item_text result =
     (case content result of
        None \<Rightarrow> None
      | Some [] \<Rightarrow> None
      | Some (first # others) \<Rightarrow> Some (item_text first))"

text \<open>
  The normalization policy in the words of the specification, to compare with the
  code: (1) a structured result is returned verbatim; (2) else, if the result carries
  textual content, the parse of that text where it parses; (3) else the text wrapped
  as \<^verbatim>\<open>{text: <content>}\<close>; (4) else the \<^verbatim>\<open>empty_tool_response\<close> payload. The textual content
  of a result is the text of the first of its content items that has one.
\<close>

definition textual_content :: "mcp_result \<Rightarrow> string option" where
  "textual_content result =
     (case filter is_str (map item_text (case content result of None \<Rightarrow> [] | Some items \<Rightarrow> items)) of
        PStr t # others \<Rightarrow> Some t
      | other \<Rightarrow> None)"

definition normalization_policy :: "env \<Rightarrow> mcp_result \<Rightarrow> pyval" where
  "normalization_policy env result =
     (if structuredContent result \<noteq> PNone then structuredContent result
      else case textual_content result of
             Some t \<Rightarrow>
               (case json_loads env t of
                  Inr parsed \<Rightarrow> parsed
                | Inl e \<Rightarrow> PDict [(''text'', PStr t)])
           | None \<Rightarrow>
               PDict [(''error'', PStr ''empty_tool_response''),
                      (''raw'', PStr (result_str result))])"

section \<open>Fixtures and an invariant of the log\<close>

text \<open>Every audio Event put on the queue so far has the fixed mime type.\<close>

definition fixed_mime :: "action list \<Rightarrow> bool" where
  "fixed_mime tr =
     (\<forall>d m. QueuePut (Audio d m) \<in> set tr \<longrightarrow> m = ''audio/pcm;rate=24000'')"

text \<open>
  Concrete collaborators for the examples: a backend that answers every call with the
  given outcome, a \<^verbatim>\<open>json.loads\<close> that rejects every text with \<^verbatim>\<open>JSONDecodeError\<close>, and sends
  that never raise.
\<close>

definition example_env :: "(error + mcp_result) \<Rightarrow> env" where
  "example_env outcome =
     \<lparr>mcp_call_tool = (\<lambda>tr n a. outcome),
      json_loads = (\<lambda>s. Inl JSONDecodeError),
      py_str = (\<lambda>v. case v of PStr s \<Rightarrow> s | other \<Rightarrow> ''None''),
      exc_str = (\<lambda>e. case e of Exception s \<Rightarrow> s | RuntimeError s \<Rightarrow> s | other \<Rightarrow> ''error''),
      send_tool_response = (\<lambda>tr rs. None),
      send_realtime_input = (\<lambda>tr a. None),
      ws_send_text = (\<lambda>tr e. None)\<rparr>"

definition text_unit :: "string \<Rightarrow> pyval \<Rightarrow> response" where
  "text_unit t flag =
     \<lparr>resp_server_content =
        Some \<lparr>sc_model_turn =
                Some \<lparr>mt_parts = Some [\<lparr>part_inline_data = None, part_text = PStr t\<rparr>]\<rparr>,
              sc_interrupted = flag\<rparr>,
      resp_tool_call = None\<rparr>"

definition audio_unit :: "bytes \<Rightarrow> pyval \<Rightarrow> response" where
  "audio_unit b mime =
     \<lparr>resp_server_content =
        Some \<lparr>sc_model_turn =
                Some \<lparr>mt_parts =
                        Some [\<lparr>part_inline_data = Some \<lparr>blob_data = PBytes b, blob_mime_type = mime\<rparr>,
                               part_text = PNone\<rparr>]\<rparr>,
              sc_interrupted = PNone\<rparr>,
      resp_tool_call = None\<rparr>"

definition interruption_unit :: response where
  "interruption_unit =
     \<lparr>resp_server_content = Some \<lparr>sc_model_turn = None, sc_interrupted = PBool True\<rparr>,
      resp_tool_call = None\<rparr>"

definition tool_unit :: "function_call list \<Rightarrow> response" where
  "tool_unit fcs =
     \<lparr>resp_server_content = None,
      resp_tool_call = Some \<lparr>tc_function_calls = Some fcs\<rparr>\<rparr>"

definition example_result :: mcp_result where
  "example_result =
     \<lparr>structuredContent = PNone, content = Some [\<lparr>item_text = PStr ''hi''\<rparr>],
      result_str = ''result''\<rparr>"

definition request :: "pyval \<Rightarrow> pyval \<Rightarrow> function_call" where
  "request i n = \<lparr>fc_name = n, fc_id = i, fc_args = PNone\<rparr>"

definition empty_state :: state where
  "empty_state = \<lparr>out_q = [], trace = []\<rparr>"

text \<open>
  A \<^verbatim>\<open>json.loads\<close> for the examples: it parses \<^verbatim>\<open>{}\<close>, raises \<^verbatim>\<open>RecursionError\<close> on a text of
  100000 opening brackets, and rejects every other text.
\<close>

definition deep_text :: string where
  "deep_text = replicate 100000 (CHR ''['')"

definition parsing_env :: env where
  "parsing_env =
     (example_env (Inr example_result))
       \<lparr>json_loads := (\<lambda>s. if s = deep_text then Inl RecursionError
                           else if s = ''{}'' then Inr (PDict [])
                           else Inl JSONDecodeError)\<rparr>"

definition later_text_result :: mcp_result where
  "later_text_result =
     \<lparr>structuredContent = PNone,
      content = Some [\<lparr>item_text = PNone\<rparr>, \<lparr>item_text = PStr ''{}''\<rparr>],
      result_str = ''r''\<rparr>"

definition deep_text_result :: mcp_result where
  "deep_text_result =
     \<lparr>structuredContent = PNone, content = Some [\<lparr>item_text = PStr deep_text\<rparr>],
      result_str = ''r''\<rparr>"

definition flaky_connect ::
  "(string \<times> pyval config) list \<Rightarrow> string \<Rightarrow> pyval config \<Rightarrow> error + nat" where
  "flaky_connect attempts model cfg =
     (if attempts = [] then Inl (Exception ''invalid argument'') else Inr (length cfg))"

definition example_cfg :: "pyval config" where
  "example_cfg =
     [(''response_modalities'', PList [PStr ''AUDIO'']),
      (''system_instruction'', PStr ''Be brief.''),
      (''realtime_input_config'', PDict [(''activity_handling'', PStr ''START_OF_ACTIVITY_INTERRUPTS'')])]"

section \<open>Properties\<close>

subsection \<open>The queue and the log\<close>

lemma drain_empty: "drain q = []"
  by (induction q) simp_all

lemma trace_put: "trace (put e st) = trace st @ [QueuePut e]"
  by (simp add: put_def)

lemma out_q_put: "out_q (put e st) = out_q st @ [e]"
  by (simp add: put_def)

lemma trace_flush: "trace (flush st) = trace st"
  by (simp add: flush_def)

lemma out_q_flush: "out_q (flush st) = []"
  by (simp add: flush_def drain_empty)

lemma trace_log: "trace (log a st) = trace st @ [a]"
  by (simp add: log_def)

lemma out_q_log: "out_q (log a st) = out_q st"
  by (simp add: log_def)

subsection \<open>The mime type of audio Events\<close>

lemma fixed_mime_put:
  "fixed_mime (trace st) \<Longrightarrow> (\<And>d m. e = Audio d m \<Longrightarrow> m = ''audio/pcm;rate=24000'')
   \<Longrightarrow> fixed_mime (trace (put e st))"
  by (auto simp: fixed_mime_def trace_put)

lemma fixed_mime_log:
  "fixed_mime (trace st) \<Longrightarrow> (\<And>e. a \<noteq> QueuePut e) \<Longrightarrow> fixed_mime (trace (log a st))"
  by (auto simp: fixed_mime_def trace_log)

lemma fixed_mime_emit_part: "fixed_mime (trace st) \<Longrightarrow> fixed_mime (trace (emit_part p st))"
  unfolding emit_part_def Let_def
  by (auto split: option.splits pyval.splits intro!: fixed_mime_put)

lemma fixed_mime_emit_parts: "fixed_mime (trace st) \<Longrightarrow> fixed_mime (trace (emit_parts ps st))"
  by (induction ps arbitrary: st) (simp_all add: fixed_mime_emit_part)

lemma fixed_mime_emit_model_turn:
  "fixed_mime (trace st) \<Longrightarrow> fixed_mime (trace (emit_model_turn sc st))"
  by (auto simp: emit_model_turn_def fixed_mime_emit_parts split: option.splits)

lemma fixed_mime_dispatch_one:
  "fixed_mime (trace (fst acc)) \<Longrightarrow> fixed_mime (trace (fst (dispatch_one env fc acc)))"
  unfolding dispatch_one_def Let_def
  by (auto split: sum.splits intro!: fixed_mime_put fixed_mime_log)

lemma fixed_mime_dispatch_all:
  "fixed_mime (trace (fst acc)) \<Longrightarrow> fixed_mime (trace (fst (dispatch_all env fcs acc)))"
  by (induction fcs arbitrary: acc) (simp_all add: fixed_mime_dispatch_one)

lemma fixed_mime_handle_tool_call:
  "fixed_mime (trace st) \<Longrightarrow> fixed_mime (trace (snd (handle_tool_call env tc st)))"
  unfolding handle_tool_call_def Let_def
  by (auto simp del: dispatch_all.simps split: option.splits list.splits
        intro!: fixed_mime_log fixed_mime_dispatch_all)

lemma fixed_mime_process_response:
  assumes "fixed_mime (trace st)"
  shows "fixed_mime (trace (snd (process_response env r st)))"
proof -
  obtain x st1 where h: "handle_tool_call env (resp_tool_call r) st = (x, st1)"
    by (cases "handle_tool_call env (resp_tool_call r) st")
  have f1: "fixed_mime (trace st1)"
    using fixed_mime_handle_tool_call [OF assms, of env "resp_tool_call r"] h by simp
  show ?thesis
  proof (cases x)
    case None
    have "fixed_mime (trace (emit_model_turn (resp_server_content r) st1))"
      using f1 by (rule fixed_mime_emit_model_turn)
    then show ?thesis
      using None h
      by (auto simp: process_response_def Let_def trace_flush intro!: fixed_mime_put)
  next
    case (Some e)
    then show ?thesis using h f1 by (simp add: process_response_def)
  qed
qed

lemma fixed_mime_gemini_recv_loop:
  "fixed_mime (trace st) \<Longrightarrow> fixed_mime (trace (snd (gemini_recv_loop env units st)))"
proof (induction env units st rule: gemini_recv_loop.induct)
  case (1 env st)
  then show ?case by simp
next
  case (2 env e units st)
  then show ?case by (auto intro!: fixed_mime_put)
next
  case (3 env r units st)
  obtain x st1 where h: "process_response env r st = (x, st1)"
    by (cases "process_response env r st")
  have f1: "fixed_mime (trace st1)"
    using fixed_mime_process_response [OF "3.prems", of env r] h by simp
  show ?case
  proof (cases x)
    case None
    then show ?thesis using "3.IH" [OF h [symmetric] None f1] h by simp
  next
    case (Some e)
    then show ?thesis using h f1 by (auto intro!: fixed_mime_put)
  qed
qed

lemma fixed_mime_bridge_loop:
  "fixed_mime (trace st) \<Longrightarrow> fixed_mime (trace (snd (bridge_loop units st)))"
proof (induction units st rule: bridge_loop.induct)
  case (3 r units st)
  have "fixed_mime (trace (bridge_process_response r st))"
    using "3.prems"
    by (auto simp: bridge_process_response_def Let_def trace_flush fixed_mime_emit_model_turn)
  then show ?case using "3.IH" by simp
qed simp_all

text \<open>
  Claim C9: every audio Event that a receive loop puts on the Outbound Queue carries
  the mime type \<^verbatim>\<open>audio/pcm;rate=24000\<close>, whatever the upstream unit says about the mime
  type of its blob. Both loops are covered, \<^verbatim>\<open>gemini_recv_loop\<close> of main.py and
  \<^verbatim>\<open>GeminiLiveBridge.recv_loop\<close> of gemini_live.py, each started with an empty log and run
  on any units.
\<close>

theorem audio_event_mime_type_fixed:
  assumes "trace st = []"
  shows "(QueuePut (Audio d m) \<in> set (trace (snd (gemini_recv_loop env units st)))
            \<longrightarrow> m = ''audio/pcm;rate=24000'')
       \<and> (QueuePut (Audio d m) \<in> set (trace (snd (recv_loop started units st)))
            \<longrightarrow> m = ''audio/pcm;rate=24000'')"
proof -
  have init: "fixed_mime (trace st)"
    using assms by (simp add: fixed_mime_def)
  have main: "fixed_mime (trace (snd (gemini_recv_loop env units st)))"
    using init by (rule fixed_mime_gemini_recv_loop)
  have bridge: "fixed_mime (trace (snd (recv_loop started units st)))"
    using init by (simp add: recv_loop_def fixed_mime_bridge_loop)
  show ?thesis
    using main bridge unfolding fixed_mime_def by blast
qed

theorem audio_event_mime_type_fixed_witness:
  "trace \<lparr>out_q = [], trace = []\<rparr> = []
   \<and> QueuePut (Audio ''AQID'' ''audio/pcm;rate=24000'')
       \<in> set (trace (snd (gemini_recv_loop (example_env (Inl (Exception ''boom'')))
                  [Inr (audio_unit [1, 2, 3] (PStr ''audio/wav''))] \<lparr>out_q = [], trace = []\<rparr>)))
   \<and> QueuePut (Audio ''AQID'' ''audio/pcm;rate=24000'')
       \<in> set (trace (snd (recv_loop True
                  [Inr (audio_unit [1, 2, 3] (PStr ''audio/wav''))] \<lparr>out_q = [], trace = []\<rparr>)))"
proof -
  have main: "gemini_recv_loop (example_env (Inl (Exception ''boom'')))
        [Inr (audio_unit [1, 2, 3] (PStr ''audio/wav''))] \<lparr>out_q = [], trace = []\<rparr>
      = (Waiting, \<lparr>out_q = [Audio ''AQID'' ''audio/pcm;rate=24000''],
                   trace = [QueuePut (Audio ''AQID'' ''audio/pcm;rate=24000'')]\<rparr>)"
    by code_simp
  have bridge: "recv_loop True
        [Inr (audio_unit [1, 2, 3] (PStr ''audio/wav''))] \<lparr>out_q = [], trace = []\<rparr>
      = (None, \<lparr>out_q = [Audio ''AQID'' ''audio/pcm;rate=24000''],
                trace = [QueuePut (Audio ''AQID'' ''audio/pcm;rate=24000'')]\<rparr>)"
    by code_simp
  show ?thesis
    using audio_event_mime_type_fixed
      [of "\<lparr>out_q = [], trace = []\<rparr>" "''AQID''" "''audio/pcm;rate=24000''"
          "example_env (Inl (Exception ''boom''))"
          "[Inr (audio_unit [1, 2, 3] (PStr ''audio/wav''))]" True]
    unfolding main bridge by simp
qed

subsection \<open>The flush protocol\<close>

lemma process_response_flush:
  assumes "interrupted (resp_server_content r)"
    and "fst (handle_tool_call env (resp_tool_call r) st) = None"
  shows "out_q (snd (process_response env r st)) = [Interrupted]"
proof -
  obtain st1 where h: "handle_tool_call env (resp_tool_call r) st = (None, st1)"
    using assms(2) by (cases "handle_tool_call env (resp_tool_call r) st") simp
  show ?thesis
    using assms(1) h by (simp add: process_response_def Let_def out_q_put out_q_flush)
qed

lemma bridge_process_response_flush:
  "interrupted (resp_server_content r) \<Longrightarrow> out_q (bridge_process_response r st) = []"
  by (simp add: bridge_process_response_def Let_def out_q_flush)

text \<open>
  In \<^verbatim>\<open>gemini_recv_loop\<close> of main.py the flush is drain, then one \<open>Interrupted\<close>: with
  \<open>A\<close>, \<open>B\<close>, \<open>C\<close> buffered, an interruption and then the text \<open>D\<close>, the queue holds
  \<open>Interrupted\<close> and \<open>D\<close>, and the delivery loop sends these two.
\<close>

lemma gemini_recv_loop_flush_scenario:
  "snd (gemini_recv_loop env [Inr interruption_unit, Inr (text_unit ''D'' PNone)]
          \<lparr>out_q = [a, b, c], trace = []\<rparr>)
     = \<lparr>out_q = [Interrupted, Text ''D''],
        trace = [QueuePut Interrupted, QueuePut (Text ''D'')]\<rparr>"
proof -
  have s: "strip ''D'' = ''D''"
    by code_simp
  show ?thesis
    by (simp add: process_response_def handle_tool_call_def interruption_unit_def
        text_unit_def emit_model_turn_def emit_part_def interrupted_def put_def flush_def
        drain_empty s)
qed

lemma gemini_to_client_after_flush:
  "snd (gemini_to_client (example_env x)
          \<lparr>out_q = [Interrupted, Text ''D''],
           trace = [QueuePut Interrupted, QueuePut (Text ''D'')]\<rparr>)
     = \<lparr>out_q = [],
        trace = [QueuePut Interrupted, QueuePut (Text ''D''),
                 WsSend Interrupted, WsSend (Text ''D'')]\<rparr>"
  by (simp add: example_env_def)

text \<open>
  Claim C1, at \<^verbatim>\<open>GeminiLiveBridge.recv_loop\<close> of gemini_live.py: with \<open>A\<close>, \<open>B\<close>, \<open>C\<close>
  buffered, an interruption and then the text \<open>D\<close>, the loop drains the queue but puts no
  \<open>Interrupted\<close> Event, so the delivery loop sends \<open>D\<close> alone, where the claim says
  \<open>Interrupted\<close>, then \<open>D\<close>.
\<close>

theorem recv_loop_flush_puts_no_interrupted:
  "recv_loop True [Inr interruption_unit, Inr (text_unit ''D'' PNone)]
       \<lparr>out_q = [Text ''A'', Text ''B'', Text ''C''], trace = []\<rparr>
     = (None, \<lparr>out_q = [Text ''D''], trace = [QueuePut (Text ''D'')]\<rparr>)
   \<and> gemini_to_client (example_env (Inl (Exception ''boom'')))
        \<lparr>out_q = [Text ''D''], trace = [QueuePut (Text ''D'')]\<rparr>
     = (None, \<lparr>out_q = [], trace = [QueuePut (Text ''D''), WsSend (Text ''D'')]\<rparr>)"
  by code_simp

subsection \<open>Tool dispatch\<close>

lemma is_str_conv: "is_str v \<longleftrightarrow> (\<exists>s. v = PStr s)"
  by (cases v) simp_all

lemma has_id_conv: "has_id fc \<longleftrightarrow> (is_str (fc_id fc) \<and> fc_id fc \<noteq> PStr [])"
  by (cases "fc_id fc") (simp_all add: has_id_def)

lemma has_name_conv: "has_name fc \<longleftrightarrow> (is_str (fc_name fc) \<and> fc_name fc \<noteq> PStr [])"
  by (cases "fc_name fc") (simp_all add: has_name_def)

lemma py_or_args: "(if \<not> is_dict (py_or a (PDict [])) then PDict [] else py_or a (PDict [])) 
   = (if is_dict a then a else PDict [])"
  by (cases a) (auto simp: py_or_def)

lemma dispatch_one_no_id:
  "\<not> has_id fc \<Longrightarrow>
   dispatch_one env fc (st, rs) =
     (put (Error (''Tool call missing id: '' @ py_str env (fc_name fc))) st, rs)"
  by (auto simp: dispatch_one_def has_id_def Let_def)

lemma dispatch_one_no_name:
  "has_id fc \<Longrightarrow> \<not> has_name fc \<Longrightarrow>
   dispatch_one env fc (st, rs) =
     (st, rs @ [\<lparr>reply_id = fc_id fc,
                 reply_name = py_or (fc_name fc) (PStr ''unknown_tool''),
                 reply_response = PDict [(''error'', PStr ''missing_function_name'')]\<rparr>])"
  by (auto simp: dispatch_one_def has_id_def has_name_def Let_def)

lemma dispatch_one_call:
  "has_id fc \<Longrightarrow> has_name fc \<Longrightarrow>
   dispatch_one env fc (st, rs) =
     (log (GatewayCall (fc_name fc) (call_args fc)) st,
      rs @ [\<lparr>reply_id = fc_id fc, reply_name = fc_name fc,
              reply_response =
                (case mcp_call_tool env (trace st) (fc_name fc) (call_args fc) of
                   Inr res \<Rightarrow>
                     (case mcp_result_to_payload env res of
                        Inr payload \<Rightarrow> PDict [(''output'', payload)]
                      | Inl e \<Rightarrow> PDict [(''error'', PStr (exc_str env e))])
                 | Inl e \<Rightarrow> PDict [(''error'', PStr (exc_str env e))])\<rparr>])"
  unfolding dispatch_one_def Let_def py_or_args call_args_def
  by (auto simp: has_id_def has_name_def split: sum.splits)

lemma dispatch_all_append:
  "dispatch_all env (xs @ ys) acc = dispatch_all env ys (dispatch_all env xs acc)"
  by (induction xs arbitrary: acc) simp_all

lemma dispatch_one_ids:
  "map reply_id (snd (dispatch_one env fc (st, rs))) =
     map reply_id rs @ (if has_id fc then [fc_id fc] else [])"
  by (cases "has_id fc"; cases "has_name fc")
     (simp_all add: dispatch_one_no_id dispatch_one_no_name dispatch_one_call)

lemma dispatch_all_ids:
  "map reply_id (snd (dispatch_all env fcs (st, rs))) =
     map reply_id rs @ map fc_id (filter has_id fcs)"
proof (induction fcs arbitrary: st rs)
  case Nil
  then show ?case by simp
next
  case (Cons fc fcs)
  obtain st1 rs1 where h: "dispatch_one env fc (st, rs) = (st1, rs1)"
    by (cases "dispatch_one env fc (st, rs)")
  have "map reply_id rs1 = map reply_id rs @ (if has_id fc then [fc_id fc] else [])"
    using dispatch_one_ids [of env fc st rs] h by simp
  then show ?case using Cons.IH [of st1 rs1] h by simp
qed

lemma dispatch_one_replies_grow:
  "\<exists>more. snd (dispatch_one env fc (st, rs)) = rs @ more"
  by (cases "has_id fc"; cases "has_name fc")
     (simp_all add: dispatch_one_no_id dispatch_one_no_name dispatch_one_call)

lemma dispatch_all_replies_grow:
  "\<exists>more. snd (dispatch_all env fcs (st, rs)) = rs @ more"
proof (induction fcs arbitrary: st rs)
  case Nil
  then show ?case by simp
next
  case (Cons fc fcs)
  obtain st1 rs1 where h: "dispatch_one env fc (st, rs) = (st1, rs1)"
    by (cases "dispatch_one env fc (st, rs)")
  obtain m1 where m1: "rs1 = rs @ m1"
    using dispatch_one_replies_grow [of env fc st rs] h by auto
  obtain m2 where "snd (dispatch_all env fcs (st1, rs1)) = rs1 @ m2"
    using Cons.IH [of st1 rs1] by auto
  then show ?case using h m1 by simp
qed

lemma dispatch_one_trace:
  "trace (fst (dispatch_one env fc (st, rs))) = trace st @ request_actions env fc"
  by (cases "has_id fc"; cases "has_name fc")
     (simp_all add: dispatch_one_no_id dispatch_one_no_name dispatch_one_call
        request_actions_def trace_put trace_log)

lemma dispatch_all_trace:
  "trace (fst (dispatch_all env fcs (st, rs))) = trace st @ concat (map (request_actions env) fcs)"
proof (induction fcs arbitrary: st rs)
  case Nil
  then show ?case by simp
next
  case (Cons fc fcs)
  obtain st1 rs1 where h: "dispatch_one env fc (st, rs) = (st1, rs1)"
    by (cases "dispatch_one env fc (st, rs)")
  have "trace st1 = trace st @ request_actions env fc"
    using dispatch_one_trace [of env fc st rs] h by simp
  then show ?case using Cons.IH [of st1 rs1] h by simp
qed

lemma request_actions_no_send: "a \<in> set (request_actions env fc) \<Longrightarrow> \<not> is_tool_response a"
  by (auto simp: request_actions_def split: if_splits)

lemma request_actions_calls:
  "length (filter is_gateway_call (request_actions env fc)) = (if has_id fc \<and> has_name fc then 1 else 0)"
  by (auto simp: request_actions_def)

lemma batch_actions_calls:
  "length (filter is_gateway_call (concat (map (request_actions env) fcs)))
     = length (filter (\<lambda>fc. has_id fc \<and> has_name fc) fcs)"
  by (induction fcs) (simp_all add: request_actions_calls)

lemma handle_tool_call_batch:
  "handle_tool_call env (Some \<lparr>tc_function_calls = Some fcs\<rparr>) st =
     (let r = dispatch_all env fcs (st, [])
      in if snd r \<noteq> [] then
           (send_tool_response env (trace (fst r)) (snd r), log (SendToolResponse (snd r)) (fst r))
         else (None, fst r))"
proof (cases fcs)
  case Nil
  then show ?thesis by (simp add: handle_tool_call_def)
next
  case (Cons fc rest)
  then show ?thesis by (simp add: handle_tool_call_def Let_def del: dispatch_all.simps)
qed

lemma handle_tool_call_absent:
  "handle_tool_call env None st = (None, st)"
  "handle_tool_call env (Some \<lparr>tc_function_calls = None\<rparr>) st = (None, st)"
  by (simp_all add: handle_tool_call_def)


text \<open>
  Claim C2: a request of a batch whose identifier is missing, not a string or empty.
  Where \<open>(st1, rs1)\<close> is the state and the reply batch after the requests before it, its
  iteration leaves the reply batch as it is and adds to the log exactly one \<open>put\<close> of an
  error Event that names the request (so no call of the gateway), and the batch goes on
  from there.
\<close>

theorem missing_id_request_rejected:
  assumes "\<not> is_str (fc_id fc) \<or> fc_id fc = PStr []"
    and "dispatch_all env pre (st, []) = (st1, rs1)"
  shows "dispatch_all env (pre @ fc # post) (st, [])
           = dispatch_all env post (dispatch_one env fc (st1, rs1))
       \<and> snd (dispatch_one env fc (st1, rs1)) = rs1
       \<and> trace (fst (dispatch_one env fc (st1, rs1)))
           = trace st1 @ [QueuePut (Error (''Tool call missing id: '' @ py_str env (fc_name fc)))]
       \<and> out_q (fst (dispatch_one env fc (st1, rs1)))
           = out_q st1 @ [Error (''Tool call missing id: '' @ py_str env (fc_name fc))]"
proof -
  have "\<not> has_id fc"
    using assms(1) by (auto simp: has_id_conv)
  then have "dispatch_one env fc (st1, rs1) =
      (put (Error (''Tool call missing id: '' @ py_str env (fc_name fc))) st1, rs1)"
    by (rule dispatch_one_no_id)
  then show ?thesis
    using assms(2) by (simp add: dispatch_all_append trace_put out_q_put)
qed

theorem missing_id_request_rejected_witness:
  "\<not> is_str (fc_id (request PNone (PStr ''lookup'')))
   \<and> dispatch_all (example_env (Inr example_result)) [request (PStr ''c1'') (PStr ''search'')]
        (empty_state, [])
       = (\<lparr>out_q = [], trace = [GatewayCall (PStr ''search'') (PDict [])]\<rparr>,
          [\<lparr>reply_id = PStr ''c1'', reply_name = PStr ''search'',
            reply_response = PDict [(''output'', PDict [(''text'', PStr ''hi'')])]\<rparr>])
   \<and> dispatch_all (example_env (Inr example_result))
        ([request (PStr ''c1'') (PStr ''search'')] @ request PNone (PStr ''lookup'') # [])
        (empty_state, [])
       = (\<lparr>out_q = [Error ''Tool call missing id: lookup''],
           trace = [GatewayCall (PStr ''search'') (PDict []),
                    QueuePut (Error ''Tool call missing id: lookup'')]\<rparr>,
          [\<lparr>reply_id = PStr ''c1'', reply_name = PStr ''search'',
            reply_response = PDict [(''output'', PDict [(''text'', PStr ''hi'')])]\<rparr>])"
proof -
  have h1: "\<not> is_str (fc_id (request PNone (PStr ''lookup'')))
            \<or> fc_id (request PNone (PStr ''lookup'')) = PStr []"
    by (simp add: request_def)
  have h2: "dispatch_all (example_env (Inr example_result)) [request (PStr ''c1'') (PStr ''search'')]
        (empty_state, [])
       = (\<lparr>out_q = [], trace = [GatewayCall (PStr ''search'') (PDict [])]\<rparr>,
          [\<lparr>reply_id = PStr ''c1'', reply_name = PStr ''search'',
            reply_response = PDict [(''output'', PDict [(''text'', PStr ''hi'')])]\<rparr>])"
    by code_simp
  have step: "dispatch_one (example_env (Inr example_result)) (request PNone (PStr ''lookup''))
        (\<lparr>out_q = [], trace = [GatewayCall (PStr ''search'') (PDict [])]\<rparr>,
          [\<lparr>reply_id = PStr ''c1'', reply_name = PStr ''search'',
            reply_response = PDict [(''output'', PDict [(''text'', PStr ''hi'')])]\<rparr>])
       = (\<lparr>out_q = [Error ''Tool call missing id: lookup''],
           trace = [GatewayCall (PStr ''search'') (PDict []),
                    QueuePut (Error ''Tool call missing id: lookup'')]\<rparr>,
          [\<lparr>reply_id = PStr ''c1'', reply_name = PStr ''search'',
            reply_response = PDict [(''output'', PDict [(''text'', PStr ''hi'')])]\<rparr>])"
    by code_simp
  show ?thesis
    using missing_id_request_rejected [OF h1 h2, of "[]"] h2 step
    by (simp add: request_def)
qed

lemma batch_after_prefix:
  "dispatch_all env pre (st, []) = (st1, rs1) \<Longrightarrow>
   dispatch_all env (pre @ fc # post) (st, []) = dispatch_all env post (dispatch_one env fc (st1, rs1))"
  by (simp add: dispatch_all_append)

lemma batch_reply_sent:
  assumes "dispatch_all env pre (st, []) = (st1, rs1)"
    and "dispatch_one env fc (st1, rs1) = (st2, rs1 @ [entry])"
  shows "\<exists>rs. handle_tool_call env (Some \<lparr>tc_function_calls = Some (pre @ fc # post)\<rparr>) st
           = (send_tool_response env (trace (fst (dispatch_all env (pre @ fc # post) (st, [])))) rs,
              log (SendToolResponse rs) (fst (dispatch_all env (pre @ fc # post) (st, []))))
         \<and> rs = snd (dispatch_all env (pre @ fc # post) (st, []))
         \<and> entry \<in> set rs"
proof -
  let ?R = "dispatch_all env (pre @ fc # post) (st, [])"
  have R: "?R = dispatch_all env post (st2, rs1 @ [entry])"
    using assms by (simp add: dispatch_all_append)
  obtain more where more: "snd ?R = (rs1 @ [entry]) @ more"
    using dispatch_all_replies_grow [of env post st2 "rs1 @ [entry]"] R by auto
  then have ne: "snd ?R \<noteq> []" and mem: "entry \<in> set (snd ?R)"
    by simp_all
  show ?thesis
    using ne mem by (simp add: handle_tool_call_batch Let_def del: dispatch_all.simps)
qed

text \<open>
  Claim C3: a request of a batch with an identifier (a string that is not empty) whose
  name is missing, not a string or empty. Its iteration leaves the state as it is, so
  the gateway is not called, and appends to the reply batch the entry with that
  identifier and the response \<^verbatim>\<open>{"error": "missing_function_name"}\<close>; the batch goes on from
  there, and the tool response sent upstream at its end holds the entry.
\<close>

theorem missing_name_request_synthesized_failure:
  fixes fc :: function_call
  defines "entry \<equiv> \<lparr>reply_id = fc_id fc,
                     reply_name = py_or (fc_name fc) (PStr ''unknown_tool''),
                     reply_response = PDict [(''error'', PStr ''missing_function_name'')]\<rparr>"
  assumes "is_str (fc_id fc)" and "fc_id fc \<noteq> PStr []"
    and "\<not> is_str (fc_name fc) \<or> fc_name fc = PStr []"
    and "dispatch_all env pre (st, []) = (st1, rs1)"
  shows "dispatch_all env (pre @ fc # post) (st, [])
           = dispatch_all env post (dispatch_one env fc (st1, rs1))
       \<and> dispatch_one env fc (st1, rs1) = (st1, rs1 @ [entry])
       \<and> (\<exists>rs. trace (snd (handle_tool_call env
                     (Some \<lparr>tc_function_calls = Some (pre @ fc # post)\<rparr>) st))
                  = trace (fst (dispatch_all env (pre @ fc # post) (st, [])))
                    @ [SendToolResponse rs]
                \<and> entry \<in> set rs)"
proof -
  have id: "has_id fc" using assms(2,3) by (simp add: has_id_conv)
  have nm: "\<not> has_name fc" using assms(4) by (auto simp: has_name_conv)
  have one: "dispatch_one env fc (st1, rs1) = (st1, rs1 @ [entry])"
    using dispatch_one_no_name [OF id nm] by (simp add: entry_def)
  obtain rs where rs: "handle_tool_call env (Some \<lparr>tc_function_calls = Some (pre @ fc # post)\<rparr>) st
           = (send_tool_response env (trace (fst (dispatch_all env (pre @ fc # post) (st, [])))) rs,
              log (SendToolResponse rs) (fst (dispatch_all env (pre @ fc # post) (st, []))))"
      and mem: "entry \<in> set rs"
    using batch_reply_sent [OF assms(5) one] by blast
  have tr: "trace (snd (handle_tool_call env
                     (Some \<lparr>tc_function_calls = Some (pre @ fc # post)\<rparr>) st))
                  = trace (fst (dispatch_all env (pre @ fc # post) (st, [])))
                    @ [SendToolResponse rs]"
    unfolding rs by (simp add: trace_log)
  show ?thesis
    using batch_after_prefix [OF assms(5)] one tr mem by blast
qed

theorem missing_name_request_synthesized_failure_witness:
  "is_str (fc_id (request (PStr ''c2'') (PStr [])))
   \<and> fc_id (request (PStr ''c2'') (PStr [])) \<noteq> PStr []
   \<and> fc_name (request (PStr ''c2'') (PStr [])) = PStr []
   \<and> dispatch_all (example_env (Inr example_result)) [request (PStr ''c1'') (PStr ''search'')]
        (empty_state, [])
       = (\<lparr>out_q = [], trace = [GatewayCall (PStr ''search'') (PDict [])]\<rparr>,
          [\<lparr>reply_id = PStr ''c1'', reply_name = PStr ''search'',
            reply_response = PDict [(''output'', PDict [(''text'', PStr ''hi'')])]\<rparr>])
   \<and> handle_tool_call (example_env (Inr example_result))
        (Some \<lparr>tc_function_calls =
                 Some ([request (PStr ''c1'') (PStr ''search'')]
                       @ request (PStr ''c2'') (PStr []) # [])\<rparr>)
        empty_state
       = (None,
          \<lparr>out_q = [],
           trace = [GatewayCall (PStr ''search'') (PDict []),
                    SendToolResponse
                      [\<lparr>reply_id = PStr ''c1'', reply_name = PStr ''search'',
                        reply_response = PDict [(''output'', PDict [(''text'', PStr ''hi'')])]\<rparr>,
                       \<lparr>reply_id = PStr ''c2'', reply_name = PStr ''unknown_tool'',
                        reply_response = PDict [(''error'', PStr ''missing_function_name'')]\<rparr>]]\<rparr>)"
proof -
  have h1: "is_str (fc_id (request (PStr ''c2'') (PStr [])))"
    and h2: "fc_id (request (PStr ''c2'') (PStr [])) \<noteq> PStr []"
    and h3: "fc_name (request (PStr ''c2'') (PStr [])) = PStr []"
    by (simp_all add: request_def)
  have h4: "dispatch_all (example_env (Inr example_result)) [request (PStr ''c1'') (PStr ''search'')]
        (empty_state, [])
       = (\<lparr>out_q = [], trace = [GatewayCall (PStr ''search'') (PDict [])]\<rparr>,
          [\<lparr>reply_id = PStr ''c1'', reply_name = PStr ''search'',
            reply_response = PDict [(''output'', PDict [(''text'', PStr ''hi'')])]\<rparr>])"
    by code_simp
  have ev: "handle_tool_call (example_env (Inr example_result))
        (Some \<lparr>tc_function_calls =
                 Some ([request (PStr ''c1'') (PStr ''search'')]
                       @ request (PStr ''c2'') (PStr []) # [])\<rparr>)
        empty_state
       = (None,
          \<lparr>out_q = [],
           trace = [GatewayCall (PStr ''search'') (PDict []),
                    SendToolResponse
                      [\<lparr>reply_id = PStr ''c1'', reply_name = PStr ''search'',
                        reply_response = PDict [(''output'', PDict [(''text'', PStr ''hi'')])]\<rparr>,
                       \<lparr>reply_id = PStr ''c2'', reply_name = PStr ''unknown_tool'',
                        reply_response = PDict [(''error'', PStr ''missing_function_name'')]\<rparr>]]\<rparr>)"
    by code_simp
  note c = missing_name_request_synthesized_failure [OF h1 h2 disjI2 [OF h3] h4, of "[]"]
  show ?thesis
    using c h1 h2 h3 h4 ev by blast
qed

lemma fst_process_response:
  "fst (process_response env r st) = fst (handle_tool_call env (resp_tool_call r) st)"
  by (cases "handle_tool_call env (resp_tool_call r) st")
     (auto simp: process_response_def Let_def split: option.splits)

lemma gemini_recv_loop_continues:
  "fst (process_response env r st) = None \<Longrightarrow>
   gemini_recv_loop env (Inr r # units) st
     = gemini_recv_loop env units (snd (process_response env r st))"
  by (cases "process_response env r st") auto

text \<open>
  Claim C4: a request of a batch with an identifier and a name for which the gateway
  raises \<open>e\<close>. Its iteration logs the call and appends the entry
  \<^verbatim>\<open>{"id": id, "name": name, "response": {"error": str(e)}}\<close> to the reply batch; the
  Outbound Queue is untouched (no error Event for the client); the entry is in the tool
  response sent upstream at the end of the batch; and the only exception that can leave
  the processing of the unit is one that this send itself raises: when it raises none,
  the loop goes on with the units that follow.
\<close>

theorem gateway_failure_reported_upstream:
  fixes fc :: function_call and env :: env
  defines "entry \<equiv> \<lambda>e. \<lparr>reply_id = fc_id fc, reply_name = fc_name fc,
                           reply_response = PDict [(''error'', PStr (exc_str env e))]\<rparr>"
  assumes "is_str (fc_id fc)" and "fc_id fc \<noteq> PStr []"
    and "is_str (fc_name fc)" and "fc_name fc \<noteq> PStr []"
    and "dispatch_all env pre (st, []) = (st1, rs1)"
    and "mcp_call_tool env (trace st1) (fc_name fc) (call_args fc) = Inl e"
    and "r = \<lparr>resp_server_content = sc,
              resp_tool_call = Some \<lparr>tc_function_calls = Some (pre @ fc # post)\<rparr>\<rparr>"
    and "fin = dispatch_all env (pre @ fc # post) (st, [])"
  shows "fin = dispatch_all env post (dispatch_one env fc (st1, rs1))
       \<and> dispatch_one env fc (st1, rs1)
           = (log (GatewayCall (fc_name fc) (call_args fc)) st1, rs1 @ [entry e])
       \<and> out_q (fst (dispatch_one env fc (st1, rs1))) = out_q st1
       \<and> trace (snd (handle_tool_call env (resp_tool_call r) st))
           = trace (fst fin) @ [SendToolResponse (snd fin)]
       \<and> entry e \<in> set (snd fin)
       \<and> fst (process_response env r st) = send_tool_response env (trace (fst fin)) (snd fin)
       \<and> (send_tool_response env (trace (fst fin)) (snd fin) = None \<longrightarrow>
            gemini_recv_loop env (Inr r # units) st
              = gemini_recv_loop env units (snd (process_response env r st)))"
proof -
  have id: "has_id fc" using assms(2,3) by (simp add: has_id_conv)
  have nm: "has_name fc" using assms(4,5) by (simp add: has_name_conv)
  have one: "dispatch_one env fc (st1, rs1)
           = (log (GatewayCall (fc_name fc) (call_args fc)) st1, rs1 @ [entry e])"
    using dispatch_one_call [OF id nm, of env st1 rs1] assms(7) by (simp add: entry_def)
  have q: "out_q (fst (dispatch_one env fc (st1, rs1))) = out_q st1"
    unfolding one by (simp add: out_q_log)
  obtain rs where h: "handle_tool_call env (Some \<lparr>tc_function_calls = Some (pre @ fc # post)\<rparr>) st
           = (send_tool_response env (trace (fst (dispatch_all env (pre @ fc # post) (st, [])))) rs,
              log (SendToolResponse rs) (fst (dispatch_all env (pre @ fc # post) (st, []))))"
      and rs: "rs = snd (dispatch_all env (pre @ fc # post) (st, []))"
      and mem: "entry e \<in> set rs"
    using batch_reply_sent [OF assms(6) one] by blast
  have h': "handle_tool_call env (resp_tool_call r) st
      = (send_tool_response env (trace (fst fin)) (snd fin),
         log (SendToolResponse (snd fin)) (fst fin))"
    using h rs assms(8,9) by simp
  have tr: "trace (snd (handle_tool_call env (resp_tool_call r) st))
           = trace (fst fin) @ [SendToolResponse (snd fin)]"
    unfolding h' by (simp add: trace_log)
  have ex: "fst (process_response env r st) = send_tool_response env (trace (fst fin)) (snd fin)"
    unfolding fst_process_response h' by simp
  have cont: "send_tool_response env (trace (fst fin)) (snd fin) = None \<longrightarrow>
            gemini_recv_loop env (Inr r # units) st
              = gemini_recv_loop env units (snd (process_response env r st))"
    using ex gemini_recv_loop_continues [of env r st units] by simp
  have d: "fin = dispatch_all env post (dispatch_one env fc (st1, rs1))"
    using batch_after_prefix [OF assms(6)] assms(9) by simp
  have mem': "entry e \<in> set (snd fin)"
    using mem rs assms(9) by simp
  show ?thesis
    using d one q tr mem' ex cont by blast
qed

theorem gateway_failure_reported_upstream_witness:
  "is_str (fc_id (request (PStr ''c1'') (PStr ''search'')))
   \<and> fc_id (request (PStr ''c1'') (PStr ''search'')) \<noteq> PStr []
   \<and> is_str (fc_name (request (PStr ''c1'') (PStr ''search'')))
   \<and> fc_name (request (PStr ''c1'') (PStr ''search'')) \<noteq> PStr []
   \<and> dispatch_all (example_env (Inl (Exception ''boom''))) [] (empty_state, [])
       = (empty_state, [])
   \<and> mcp_call_tool (example_env (Inl (Exception ''boom''))) (trace empty_state)
        (fc_name (request (PStr ''c1'') (PStr ''search'')))
        (call_args (request (PStr ''c1'') (PStr ''search'')))
       = Inl (Exception ''boom'')
   \<and> gemini_recv_loop (example_env (Inl (Exception ''boom'')))
        (Inr (tool_unit [request (PStr ''c1'') (PStr ''search'')])
         # [Inr (text_unit ''D'' PNone)])
        empty_state
       = (Waiting,
          \<lparr>out_q = [Text ''D''],
           trace = [GatewayCall (PStr ''search'') (PDict []),
                    SendToolResponse
                      [\<lparr>reply_id = PStr ''c1'', reply_name = PStr ''search'',
                        reply_response = PDict [(''error'', PStr ''boom'')]\<rparr>],
                    QueuePut (Text ''D'')]\<rparr>)"
proof -
  let ?env = "example_env (Inl (Exception ''boom''))"
  let ?fc = "request (PStr ''c1'') (PStr ''search'')"
  have h1: "is_str (fc_id ?fc)" and h2: "fc_id ?fc \<noteq> PStr []"
    and h3: "is_str (fc_name ?fc)" and h4: "fc_name ?fc \<noteq> PStr []"
    by (simp_all add: request_def)
  have h5: "dispatch_all ?env [] (empty_state, []) = (empty_state, [])"
    by simp
  have h6: "mcp_call_tool ?env (trace empty_state) (fc_name ?fc) (call_args ?fc)
              = Inl (Exception ''boom'')"
    by (simp add: example_env_def)
  have h7: "tool_unit [?fc] = \<lparr>resp_server_content = None,
              resp_tool_call = Some \<lparr>tc_function_calls = Some ([] @ ?fc # [])\<rparr>\<rparr>"
    by (simp add: tool_unit_def)
  have ev: "gemini_recv_loop ?env (Inr (tool_unit [?fc]) # [Inr (text_unit ''D'' PNone)])
        empty_state
       = (Waiting,
          \<lparr>out_q = [Text ''D''],
           trace = [GatewayCall (PStr ''search'') (PDict []),
                    SendToolResponse
                      [\<lparr>reply_id = PStr ''c1'', reply_name = PStr ''search'',
                        reply_response = PDict [(''error'', PStr ''boom'')]\<rparr>],
                    QueuePut (Text ''D'')]\<rparr>)"
    by code_simp
  note c = gateway_failure_reported_upstream [OF h1 h2 h3 h4 h5 h6 h7 refl,
      of "[Inr (text_unit ''D'' PNone)]"]
  show ?thesis
    using c h1 h2 h3 h4 h5 h6 ev by blast
qed

text \<open>
  Claim C5: for a batch \<open>fcs\<close>, dispatched from the state \<open>st\<close> to \<open>fin\<close>. The log of the
  tool-call branch is the log before, then what each request of the batch adds, in
  order, then one \<open>SendToolResponse\<close> with the whole reply batch, present if and only if
  that batch is not empty. No request adds a send of its own, each request with an
  identifier and a name adds its gateway call, the reply batch holds one entry for
  every request with an identifier, in order, and it is not empty exactly when some
  request has an identifier.
\<close>

theorem tool_response_after_whole_batch:
  assumes "fin = dispatch_all env fcs (st, [])"
  shows "trace (snd (handle_tool_call env (Some \<lparr>tc_function_calls = Some fcs\<rparr>) st))
           = trace (fst fin) @ (if snd fin = [] then [] else [SendToolResponse (snd fin)])
       \<and> trace (fst fin) = trace st @ concat (map (request_actions env) fcs)
       \<and> (\<forall>a \<in> set (concat (map (request_actions env) fcs)). \<not> is_tool_response a)
       \<and> length (filter is_gateway_call (concat (map (request_actions env) fcs)))
           = length (filter (\<lambda>fc. has_id fc \<and> has_name fc) fcs)
       \<and> map reply_id (snd fin) = map fc_id (filter has_id fcs)
       \<and> (snd fin \<noteq> [] \<longleftrightarrow> (\<exists>fc \<in> set fcs. has_id fc))"
proof -
  have t1: "trace (snd (handle_tool_call env (Some \<lparr>tc_function_calls = Some fcs\<rparr>) st))
           = trace (fst fin) @ (if snd fin = [] then [] else [SendToolResponse (snd fin)])"
    unfolding handle_tool_call_batch Let_def assms by (simp add: trace_log)
  have t2: "trace (fst fin) = trace st @ concat (map (request_actions env) fcs)"
    unfolding assms by (rule dispatch_all_trace)
  have t3: "\<forall>a \<in> set (concat (map (request_actions env) fcs)). \<not> is_tool_response a"
    by (auto dest: request_actions_no_send)
  have t5: "map reply_id (snd fin) = map fc_id (filter has_id fcs)"
    unfolding assms using dispatch_all_ids [of env fcs st "[]"] by simp
  have "snd fin = [] \<longleftrightarrow> map reply_id (snd fin) = []"
    by simp
  also have "\<dots> \<longleftrightarrow> filter has_id fcs = []"
    unfolding t5 by simp
  also have "\<dots> \<longleftrightarrow> \<not> (\<exists>fc \<in> set fcs. has_id fc)"
    by (simp add: filter_empty_conv)
  finally have t6: "snd fin \<noteq> [] \<longleftrightarrow> (\<exists>fc \<in> set fcs. has_id fc)"
    by blast
  show ?thesis
    using t1 t2 t3 batch_actions_calls [of env fcs] t5 t6 by blast
qed

theorem tool_response_after_whole_batch_witness:
  "handle_tool_call (example_env (Inr example_result))
        (Some \<lparr>tc_function_calls =
                 Some [request (PStr ''c1'') (PStr ''search''), request PNone (PStr ''lookup''),
                       request (PStr ''c3'') PNone]\<rparr>)
        empty_state
       = (None,
          \<lparr>out_q = [Error ''Tool call missing id: lookup''],
           trace = [GatewayCall (PStr ''search'') (PDict []),
                    QueuePut (Error ''Tool call missing id: lookup''),
                    SendToolResponse
                      [\<lparr>reply_id = PStr ''c1'', reply_name = PStr ''search'',
                        reply_response = PDict [(''output'', PDict [(''text'', PStr ''hi'')])]\<rparr>,
                       \<lparr>reply_id = PStr ''c3'', reply_name = PStr ''unknown_tool'',
                        reply_response = PDict [(''error'', PStr ''missing_function_name'')]\<rparr>]]\<rparr>)
   \<and> map reply_id (snd (dispatch_all (example_env (Inr example_result))
          [request (PStr ''c1'') (PStr ''search''), request PNone (PStr ''lookup''),
           request (PStr ''c3'') PNone] (empty_state, [])))
       = [PStr ''c1'', PStr ''c3'']
   \<and> handle_tool_call (example_env (Inr example_result))
        (Some \<lparr>tc_function_calls = Some [request PNone (PStr ''lookup'')]\<rparr>) empty_state
       = (None,
          \<lparr>out_q = [Error ''Tool call missing id: lookup''],
           trace = [QueuePut (Error ''Tool call missing id: lookup'')]\<rparr>)"
proof -
  let ?env = "example_env (Inr example_result)"
  let ?fcs = "[request (PStr ''c1'') (PStr ''search''), request PNone (PStr ''lookup''),
               request (PStr ''c3'') PNone]"
  have e1: "handle_tool_call ?env (Some \<lparr>tc_function_calls = Some ?fcs\<rparr>) empty_state
       = (None,
          \<lparr>out_q = [Error ''Tool call missing id: lookup''],
           trace = [GatewayCall (PStr ''search'') (PDict []),
                    QueuePut (Error ''Tool call missing id: lookup''),
                    SendToolResponse
                      [\<lparr>reply_id = PStr ''c1'', reply_name = PStr ''search'',
                        reply_response = PDict [(''output'', PDict [(''text'', PStr ''hi'')])]\<rparr>,
                       \<lparr>reply_id = PStr ''c3'', reply_name = PStr ''unknown_tool'',
                        reply_response = PDict [(''error'', PStr ''missing_function_name'')]\<rparr>]]\<rparr>)"
    by code_simp
  have e2: "filter has_id ?fcs = [request (PStr ''c1'') (PStr ''search''), request (PStr ''c3'') PNone]"
    by (simp add: has_id_def request_def)
  have e3: "handle_tool_call ?env
        (Some \<lparr>tc_function_calls = Some [request PNone (PStr ''lookup'')]\<rparr>) empty_state
       = (None,
          \<lparr>out_q = [Error ''Tool call missing id: lookup''],
           trace = [QueuePut (Error ''Tool call missing id: lookup'')]\<rparr>)"
    by code_simp
  note c = tool_response_after_whole_batch [OF refl, of ?env ?fcs empty_state]
  have ids: "map reply_id (snd (dispatch_all ?env ?fcs (empty_state, [])))
       = [PStr ''c1'', PStr ''c3'']"
    using c e2 by (simp add: request_def)
  show ?thesis
    using e1 ids e3 by blast
qed

subsection \<open>Response normalization\<close>

lemma deep_text_long: "length s < 100000 \<Longrightarrow> s \<noteq> deep_text"
  by (auto simp: deep_text_def)

lemma not_str_payload:
  "\<not> is_str v \<Longrightarrow> (case v of PStr t \<Rightarrow> f t | other \<Rightarrow> d) = d"
  for f :: "string \<Rightarrow> error + pyval"
  by (cases v) simp_all

text \<open>
  An exception of \<^verbatim>\<open>json.loads\<close> other than \<^verbatim>\<open>JSONDecodeError\<close> leaves
  \<^verbatim>\<open>mcp_result_to_payload\<close>; the \<^verbatim>\<open>except Exception\<close> of the dispatch loop then reports it
  upstream as the request's error entry.
\<close>

lemma mcp_result_to_payload_raises:
  assumes "structuredContent result = PNone" and "content result = Some (first # others)"
    and "item_text first = PStr t" and "json_loads env t = Inl e" and "e \<noteq> JSONDecodeError"
  shows "mcp_result_to_payload env result = Inl e"
  using assms by (simp add: mcp_result_to_payload_def)

lemma dispatch_one_payload_raises:
  assumes "has_id fc" and "has_name fc"
    and "mcp_call_tool env (trace st) (fc_name fc) (call_args fc) = Inr res"
    and "mcp_result_to_payload env res = Inl e"
  shows "dispatch_one env fc (st, rs) =
     (log (GatewayCall (fc_name fc) (call_args fc)) st,
      rs @ [\<lparr>reply_id = fc_id fc, reply_name = fc_name fc,
              reply_response = PDict [(''error'', PStr (exc_str env e))]\<rparr>])"
  using assms by (simp add: dispatch_one_call)

text \<open>
  Claim C6, as the specification words it, fails on the code at two places. The result
  \<open>later_text_result\<close> carries a text in its second content item only: the code looks at
  the first item alone and returns the \<^verbatim>\<open>empty_tool_response\<close> payload, where the policy
  as worded returns the parse of the text. The result \<open>deep_text_result\<close> carries a text
  of 100000 opening brackets, on which \<^verbatim>\<open>json.loads\<close> raises \<^verbatim>\<open>RecursionError\<close>: the code raises
  it too, where the policy as worded wraps every text that does not parse as
  \<^verbatim>\<open>{"text": text}\<close>.
\<close>

theorem response_normalization_counterexample:
  "mcp_result_to_payload parsing_env later_text_result
     = Inr (PDict [(''error'', PStr ''empty_tool_response''), (''raw'', PStr ''r'')])
   \<and> normalization_policy parsing_env later_text_result = PDict []
   \<and> mcp_result_to_payload parsing_env deep_text_result = Inl RecursionError
   \<and> normalization_policy parsing_env deep_text_result = PDict [(''text'', PStr deep_text)]"
proof -
  have ne: "''{}'' \<noteq> deep_text"
    by (rule deep_text_long) simp
  have j1: "json_loads parsing_env ''{}'' = Inr (PDict [])"
    and j2: "json_loads parsing_env deep_text = Inl RecursionError"
    using ne by (simp_all add: parsing_env_def example_env_def)
  show ?thesis
    using j1 j2
    by (simp add: mcp_result_to_payload_def normalization_policy_def textual_content_def
          later_text_result_def deep_text_result_def)
qed

text \<open>
  Claim C6, amended: \<^verbatim>\<open>mcp_result_to_payload\<close> applies these steps in order, for every
  result. A structured result is returned as it is. Otherwise, when the first content
  item carries a text (a \<^verbatim>\<open>str\<close>), the parse of that text is returned where \<^verbatim>\<open>json.loads\<close>
  returns one, and \<^verbatim>\<open>{"text": text}\<close> where \<^verbatim>\<open>json.loads\<close> rejects the text with a
  \<^verbatim>\<open>JSONDecodeError\<close>. Otherwise (no content, or a first item without a text, whatever
  the later items carry) the payload is
  \<^verbatim>\<open>{"error": "empty_tool_response", "raw": str(result)}\<close>. The outcome depends on nothing
  but the structured result, the text of the first content item, the stringified result
  and what \<^verbatim>\<open>json.loads\<close> makes of that text: two results and two parsers that agree on
  these have the same outcome.
\<close>

theorem response_normalization_first_item:
  "(structuredContent result \<noteq> PNone \<longrightarrow>
      mcp_result_to_payload env result = Inr (structuredContent result))
   \<and> (structuredContent result = PNone \<and> content result = Some (first # others)
        \<and> item_text first = PStr t \<and> json_loads env t = Inr parsed \<longrightarrow>
      mcp_result_to_payload env result = Inr parsed)
   \<and> (structuredContent result = PNone \<and> content result = Some (first # others)
        \<and> item_text first = PStr t \<and> json_loads env t = Inl JSONDecodeError \<longrightarrow>
      mcp_result_to_payload env result = Inr (PDict [(''text'', PStr t)]))
   \<and> (structuredContent result = PNone
        \<and> (content result = None \<or> content result = Some []
             \<or> (content result = Some (first # others) \<and> \<not> is_str (item_text first))) \<longrightarrow>
      mcp_result_to_payload env result =
        Inr (PDict [(''error'', PStr ''empty_tool_response''),
                    (''raw'', PStr (result_str result))]))
   \<and> (structuredContent result' = structuredContent result
        \<and> first_item_text result' = first_item_text result
        \<and> result_str result' = result_str result
        \<and> (\<forall>s. first_item_text result = Some (PStr s) \<longrightarrow>
               json_loads env' s = json_loads env s) \<longrightarrow>
      mcp_result_to_payload env' result' = mcp_result_to_payload env result)"
proof -
  have steps: "mcp_result_to_payload e r =
      (if structuredContent r \<noteq> PNone then Inr (structuredContent r)
       else case first_item_text r of
              Some (PStr s) \<Rightarrow>
                (case json_loads e s of
                   Inr parsed \<Rightarrow> Inr parsed
                 | Inl x \<Rightarrow> if x = JSONDecodeError then Inr (PDict [(''text'', PStr s)])
                            else Inl x)
            | other \<Rightarrow> Inr (PDict [(''error'', PStr ''empty_tool_response''),
                                  (''raw'', PStr (result_str r))]))" for e r
    by (simp add: mcp_result_to_payload_def first_item_text_def Let_def
             split: option.splits list.splits pyval.splits)
  have c1: "structuredContent result \<noteq> PNone \<longrightarrow>
      mcp_result_to_payload env result = Inr (structuredContent result)"
    by (simp add: mcp_result_to_payload_def)
  have c2: "structuredContent result = PNone \<and> content result = Some (first # others)
        \<and> item_text first = PStr t \<and> json_loads env t = Inr parsed \<longrightarrow>
      mcp_result_to_payload env result = Inr parsed"
    by (simp add: mcp_result_to_payload_def)
  have c3: "structuredContent result = PNone \<and> content result = Some (first # others)
        \<and> item_text first = PStr t \<and> json_loads env t = Inl JSONDecodeError \<longrightarrow>
      mcp_result_to_payload env result = Inr (PDict [(''text'', PStr t)])"
    by (simp add: mcp_result_to_payload_def)
  have c4: "structuredContent result = PNone
        \<and> (content result = None \<or> content result = Some []
             \<or> (content result = Some (first # others) \<and> \<not> is_str (item_text first))) \<longrightarrow>
      mcp_result_to_payload env result =
        Inr (PDict [(''error'', PStr ''empty_tool_response''),
                    (''raw'', PStr (result_str result))])"
    by (auto simp: mcp_result_to_payload_def Let_def not_str_payload)
  have c5: "structuredContent result' = structuredContent result
        \<and> first_item_text result' = first_item_text result
        \<and> result_str result' = result_str result
        \<and> (\<forall>s. first_item_text result = Some (PStr s) \<longrightarrow>
               json_loads env' s = json_loads env s) \<longrightarrow>
      mcp_result_to_payload env' result' = mcp_result_to_payload env result"
    unfolding steps by (simp split: option.splits pyval.splits)
  show ?thesis
    using c1 c2 c3 c4 c5 by blast
qed

theorem response_normalization_first_item_witness:
  "mcp_result_to_payload parsing_env
      \<lparr>structuredContent = PDict [(''n'', PInt 1)], content = Some [\<lparr>item_text = PStr ''{}''\<rparr>],
       result_str = ''r''\<rparr> = Inr (PDict [(''n'', PInt 1)])
   \<and> mcp_result_to_payload parsing_env
      \<lparr>structuredContent = PNone, content = Some [\<lparr>item_text = PStr ''{}''\<rparr>],
       result_str = ''r''\<rparr> = Inr (PDict [])
   \<and> mcp_result_to_payload parsing_env
      \<lparr>structuredContent = PNone, content = Some [\<lparr>item_text = PStr ''hi''\<rparr>],
       result_str = ''r''\<rparr> = Inr (PDict [(''text'', PStr ''hi'')])
   \<and> mcp_result_to_payload parsing_env
      \<lparr>structuredContent = PNone, content = Some [], result_str = ''r''\<rparr>
       = Inr (PDict [(''error'', PStr ''empty_tool_response''), (''raw'', PStr ''r'')])
   \<and> mcp_result_to_payload (example_env (Inr example_result))
      \<lparr>structuredContent = PNone,
       content = Some [\<lparr>item_text = PStr ''hi''\<rparr>, \<lparr>item_text = PStr ''{}''\<rparr>],
       result_str = ''r''\<rparr>
       = mcp_result_to_payload parsing_env
           \<lparr>structuredContent = PNone, content = Some [\<lparr>item_text = PStr ''hi''\<rparr>],
            result_str = ''r''\<rparr>"
proof -
  let ?r1 = "\<lparr>structuredContent = PDict [(''n'', PInt 1)],
              content = Some [\<lparr>item_text = PStr ''{}''\<rparr>], result_str = ''r''\<rparr>"
  let ?r2 = "\<lparr>structuredContent = PNone, content = Some [\<lparr>item_text = PStr ''{}''\<rparr>],
              result_str = ''r''\<rparr>"
  let ?r3 = "\<lparr>structuredContent = PNone, content = Some [\<lparr>item_text = PStr ''hi''\<rparr>],
              result_str = ''r''\<rparr>"
  let ?r4 = "\<lparr>structuredContent = PNone, content = Some [], result_str = ''r''\<rparr>"
  let ?r5 = "\<lparr>structuredContent = PNone,
              content = Some [\<lparr>item_text = PStr ''hi''\<rparr>, \<lparr>item_text = PStr ''{}''\<rparr>],
              result_str = ''r''\<rparr>"
  have ne: "''{}'' \<noteq> deep_text" "''hi'' \<noteq> deep_text"
    by (rule deep_text_long, simp)+
  have j1: "json_loads parsing_env ''{}'' = Inr (PDict [])"
    and j2: "json_loads parsing_env ''hi'' = Inl JSONDecodeError"
    and j3: "json_loads (example_env (Inr example_result)) ''hi'' = json_loads parsing_env ''hi''"
    using ne by (simp_all add: parsing_env_def example_env_def)
  have f5: "first_item_text ?r5 = Some (PStr ''hi'')"
    and f3: "first_item_text ?r3 = Some (PStr ''hi'')"
    by (simp_all add: first_item_text_def)
  have c1: "mcp_result_to_payload parsing_env ?r1 = Inr (PDict [(''n'', PInt 1)])"
    using response_normalization_first_item [where result = ?r1 and env = parsing_env] by simp
  have c2: "mcp_result_to_payload parsing_env ?r2 = Inr (PDict [])"
    using response_normalization_first_item
      [where result = ?r2 and first = "\<lparr>item_text = PStr ''{}''\<rparr>" and others = "[]"
         and t = "''{}''" and env = parsing_env and parsed = "PDict []"] j1
    by simp
  have c3: "mcp_result_to_payload parsing_env ?r3 = Inr (PDict [(''text'', PStr ''hi'')])"
    using response_normalization_first_item
      [where result = ?r3 and first = "\<lparr>item_text = PStr ''hi''\<rparr>" and others = "[]"
         and t = "''hi''" and env = parsing_env] j2
    by simp
  have c4: "mcp_result_to_payload parsing_env ?r4
       = Inr (PDict [(''error'', PStr ''empty_tool_response''), (''raw'', PStr ''r'')])"
    using response_normalization_first_item [where result = ?r4 and env = parsing_env]
    by simp
  have c5: "mcp_result_to_payload (example_env (Inr example_result)) ?r5
       = mcp_result_to_payload parsing_env ?r3"
    using response_normalization_first_item
      [where result = ?r3 and result' = ?r5 and env = parsing_env
         and env' = "example_env (Inr example_result)"] f5 f3 j3
    by simp
  show ?thesis
    using c1 c2 c3 c4 c5 by blast
qed

subsection \<open>Establishing the upstream session\<close>

lemma minimal_cfg_entries:
  "set (minimal_cfg cfg) =
     {(k, v). (k, v) \<in> set cfg
        \<and> (k = ''response_modalities'' \<or> k = ''system_instruction'' \<or> k = ''tools'')}"
  by (auto simp: minimal_cfg_def)

text \<open>
  Claim C7: when the connect with the full configuration raises, there is exactly one
  more attempt, with the same model and the configuration reduced to the entries of the
  full one under \<^verbatim>\<open>response_modalities\<close>, \<^verbatim>\<open>system_instruction\<close> and \<^verbatim>\<open>tools\<close>; its outcome
  is the outcome of the whole, and when it gives a session the relay starts on that
  session and the client is sent \<^verbatim>\<open>ready\<close> and no error Event.
\<close>

theorem connect_retry_with_reduced_config:
  assumes "connect [] model cfg = Inl e"
  shows "fst (establish_upstream connect model cfg) = [(model, cfg), (model, minimal_cfg cfg)]
       \<and> snd (establish_upstream connect model cfg)
           = connect [(model, cfg)] model (minimal_cfg cfg)
       \<and> set (minimal_cfg cfg) =
           {(k, v). (k, v) \<in> set cfg
              \<and> (k = ''response_modalities'' \<or> k = ''system_instruction'' \<or> k = ''tools'')}
       \<and> (connect [(model, cfg)] model (minimal_cfg cfg) = Inr live_session \<longrightarrow>
            start_session str_of connect model cfg =
              ([(model, cfg), (model, minimal_cfg cfg)], [Ready model], Active live_session))"
  using assms
  by (simp add: establish_upstream_def start_session_def minimal_cfg_entries)


theorem connect_retry_with_reduced_config_witness:
  "flaky_connect [] ''m1'' example_cfg = Inl (Exception ''invalid argument'')
   \<and> start_session (\<lambda>e. ''error'') flaky_connect ''m1'' example_cfg =
       ([(''m1'', example_cfg),
         (''m1'', [(''response_modalities'', PList [PStr ''AUDIO'']),
                   (''system_instruction'', PStr ''Be brief.'')])],
        [Ready ''m1''], Active 2)"
proof -
  have h: "flaky_connect [] ''m1'' example_cfg = Inl (Exception ''invalid argument'')"
    by (simp add: flaky_connect_def)
  have m: "minimal_cfg example_cfg =
      [(''response_modalities'', PList [PStr ''AUDIO'']),
       (''system_instruction'', PStr ''Be brief.'')]"
    by code_simp
  have r: "flaky_connect [(''m1'', example_cfg)] ''m1'' (minimal_cfg example_cfg) = Inr 2"
    by (simp add: flaky_connect_def m)
  show ?thesis
    using connect_retry_with_reduced_config
      [where connect = flaky_connect and model = "''m1''" and cfg = example_cfg
         and live_session = 2 and str_of = "\<lambda>e. ''error''", OF h] h r m
    by simp
qed

subsection \<open>Inbound audio messages\<close>

lemma not_str_case:
  "\<not> is_str v \<Longrightarrow> (case v of PStr s \<Rightarrow> f s | other \<Rightarrow> d) = d"
  by (cases v) simp_all

text \<open>
  Claim C10: an inbound \<^verbatim>\<open>audio\<close> message whose \<^verbatim>\<open>data\<close> is absent or not a string.
  \<^verbatim>\<open>handle_client_msg\<close> returns without an exception and leaves the state as it is:
  nothing is sent upstream, nothing is sent to the client, \<^verbatim>\<open>b64d\<close> is not applied, and
  \<^verbatim>\<open>client_to_gemini\<close> goes on with the messages that follow.
\<close>

theorem audio_message_without_string_data_ignored:
  assumes "dict_get msg ''type'' PNone = PStr ''audio''"
    and "\<not> is_str (dict_get msg ''data'' PNone)"
  shows "handle_client_msg env (PDict msg) st = (None, st)
       \<and> client_loop env (Message (PDict msg) # ins) st = client_loop env ins st
       \<and> client_to_gemini env (Some (PDict msg)) ins st = client_to_gemini env None ins st"
proof -
  have h: "handle_client_msg env (PDict msg) st = (None, st)"
    using assms by (simp add: handle_client_msg_def Let_def not_str_case)
  then show ?thesis
    by (simp add: client_to_gemini_def)
qed

theorem audio_message_without_string_data_ignored_witness:
  "dict_get [(''type'', PStr ''audio''), (''data'', PInt 7)] ''type'' PNone = PStr ''audio''
   \<and> \<not> is_str (dict_get [(''type'', PStr ''audio''), (''data'', PInt 7)] ''data'' PNone)
   \<and> client_loop (example_env (Inr example_result))
        [Message (PDict [(''type'', PStr ''audio''), (''data'', PInt 7)]),
         Message (PDict [(''type'', PStr ''audio''), (''data'', PStr ''AQID'')])]
        empty_state
       = (Waiting,
          \<lparr>out_q = [], trace = [SendAudio [1, 2, 3] (PStr ''audio/pcm;rate=16000'')]\<rparr>)"
proof -
  let ?m = "[(''type'', PStr ''audio''), (''data'', PInt 7)]"
  have h1: "dict_get ?m ''type'' PNone = PStr ''audio''"
    and h2: "\<not> is_str (dict_get ?m ''data'' PNone)"
    by (simp_all add: dict_get_def)
  have ev: "client_loop (example_env (Inr example_result))
        [Message (PDict [(''type'', PStr ''audio''), (''data'', PStr ''AQID'')])]
        empty_state
       = (Waiting,
          \<lparr>out_q = [], trace = [SendAudio [1, 2, 3] (PStr ''audio/pcm;rate=16000'')]\<rparr>)"
    by code_simp
  show ?thesis
    using audio_message_without_string_data_ignored [OF h1 h2,
        of "example_env (Inr example_result)" empty_state
           "[Message (PDict [(''type'', PStr ''audio''), (''data'', PStr ''AQID'')])]"]
      h1 h2 ev
    by simp
qed

subsection \<open>Base64 round trip\<close>












lemma byte_of_parts:
  fixes a :: byte
  shows "of_nat (unat a div 4 * 4 + unat a mod 4) = a"
    and "of_nat (unat a div 16 * 16 + unat a mod 16) = a"
    and "of_nat (unat a div 64 * 64 + unat a mod 64) = a"
  by simp_all




subsection \<open>JSON round trip\<close>



























end
